theory Spec2Isabelle
  imports Main
begin

section \<open>Exceptions\<close>

text \<open>
  Every exception the two modules raise or let through is a value. An exception raised
  with \<^verbatim>\<open>raise X(msg) from exc\<close> keeps its message and its cause. A function that can
  raise returns \<open>exc + 'a\<close>, with \<open>Inl\<close> for the exception.
\<close>

datatype exc =
    KeyError string
  | IndexError
  | ValueError string
  | AssertionError
  | ValidationError "(string \<times> string) list"
  | UnsupportedArchitectureError string
  | RunnerBinaryError
  | SubprocessError
  | OpenStackCloudException
  | OpenstackImageBuildError string "exc option"
  | InstanceLaunchError string "exc option"
  | RuntimeError string

section \<open>configuration/base.py\<close>

subsection \<open>Field types\<close>

text \<open>
  \<^verbatim>\<open>AnyHttpUrl\<close> is the library's URL type. The code reads its \<^verbatim>\<open>host\<close> and
  \<^verbatim>\<open>port\<close> attributes and its text (\<^verbatim>\<open>str(url)\<close>). The field validation of the type
  accepts the schemes http and https, requires a host, and accepts a port only as a
  non-empty decimal numeral of at most 65535.
\<close>

record AnyHttpUrl =
  url_text :: string
  url_scheme :: string
  url_host :: "string option"
  url_port :: "string option"

definition is_digit :: "char \<Rightarrow> bool" where
  "is_digit c = (c \<in> set ''0123456789'')"

definition int_of_str :: "string \<Rightarrow> nat" where
  "int_of_str s = foldl (\<lambda>n c. 10 * n + (of_char c - 48)) 0 s"

definition valid_port_text :: "string \<Rightarrow> bool" where
  "valid_port_text p = (p \<noteq> [] \<and> list_all is_digit p \<and> int_of_str p \<le> 65535)"

definition validate_AnyHttpUrl :: "AnyHttpUrl \<Rightarrow> string + AnyHttpUrl" where
  "validate_AnyHttpUrl u =
     (if url_scheme u \<noteq> ''http'' \<and> url_scheme u \<noteq> ''https'' then Inl ''URL scheme not permitted''
      else if url_host u = None then Inl ''URL host invalid''
      else (case url_port u of
              None \<Rightarrow> Inr u
            | Some p \<Rightarrow> if valid_port_text p then Inr u else Inl ''URL port invalid''))"

definition validate_Optional_AnyHttpUrl :: "AnyHttpUrl option \<Rightarrow> string + AnyHttpUrl option" where
  "validate_Optional_AnyHttpUrl v =
     (case v of
        None \<Rightarrow> Inr None
      | Some u \<Rightarrow> (case validate_AnyHttpUrl u of Inl m \<Rightarrow> Inl m | Inr u' \<Rightarrow> Inr (Some u')))"

text \<open>
  Python's \<^verbatim>\<open>a or b\<close> on two optional objects that are truthy whenever present (a
  validated URL is a non-empty text): \<open>a\<close> when it is not \<^verbatim>\<open>None\<close>, otherwise \<open>b\<close>.
\<close>

definition py_or :: "'a option \<Rightarrow> 'a option \<Rightarrow> 'a option" where
  "py_or a b = (case a of Some x \<Rightarrow> Some x | None \<Rightarrow> b)"

subsection \<open>ProxyConfig\<close>

record ProxyConfig =
  http :: "AnyHttpUrl option"
  https :: "AnyHttpUrl option"
  no_proxy :: "string option"
  use_aproxy :: bool

text \<open>
  The property \<^verbatim>\<open>aproxy_address\<close>. The \<^verbatim>\<open>assert\<close> is a branch of the model;
  \<^verbatim>\<open>not proxy_address.port\<close> holds for \<^verbatim>\<open>None\<close> and for the empty text.
\<close>

definition aproxy_address :: "ProxyConfig \<Rightarrow> exc + string option" where
  "aproxy_address self =
     (if use_aproxy self then
        (case py_or (http self) (https self) of
           None \<Rightarrow> Inl AssertionError
         | Some proxy_address \<Rightarrow>
             (case url_host proxy_address of
                None \<Rightarrow> Inl AssertionError
              | Some h \<Rightarrow>
                  (case url_port proxy_address of
                     None \<Rightarrow> Inr (Some h)
                   | Some p \<Rightarrow> if p = [] then Inr (Some h) else Inr (Some (h @ '':'' @ p)))))
      else Inr None)"

text \<open>
  The validator of \<^verbatim>\<open>use_aproxy\<close>. \<^verbatim>\<open>values\<close> holds the fields validated before it;
  \<^verbatim>\<open>values.get\<close> gives \<^verbatim>\<open>None\<close> for a field that is absent or \<^verbatim>\<open>None\<close>.
\<close>

record ProxyConfig_values =
  values_http :: "AnyHttpUrl option"
  values_https :: "AnyHttpUrl option"
  values_no_proxy :: "string option"

definition check_use_aproxy :: "bool \<Rightarrow> ProxyConfig_values \<Rightarrow> exc + bool" where
  "check_use_aproxy b vals =
     (if b \<and> \<not> (py_or (values_http vals) (values_https vals) \<noteq> None)
      then Inl (ValueError ''aproxy requires http or https to be set'')
      else Inr b)"

text \<open>
  Construction of a \<^verbatim>\<open>ProxyConfig\<close> from keyword arguments. The fields are validated
  in the order of their declaration, every failure is collected, and a non-empty
  collection is raised as one validation error. A keyword that is not given takes the
  default (\<^verbatim>\<open>None\<close>, and \<^verbatim>\<open>False\<close> for \<^verbatim>\<open>use_aproxy\<close>); the validator of
  \<^verbatim>\<open>use_aproxy\<close> runs only on a given value.
\<close>

record ProxyConfig_kwargs =
  kw_http :: "AnyHttpUrl option"
  kw_https :: "AnyHttpUrl option"
  kw_no_proxy :: "string option"
  kw_use_aproxy :: "bool option"

definition field_errors :: "string \<Rightarrow> string + 'a \<Rightarrow> (string \<times> string) list" where
  "field_errors name r = (case r of Inl m \<Rightarrow> [(name, m)] | Inr _ \<Rightarrow> [])"

definition field_value :: "'a \<Rightarrow> string + 'a \<Rightarrow> 'a" where
  "field_value d r = (case r of Inl _ \<Rightarrow> d | Inr v \<Rightarrow> v)"

definition exc_message :: "exc + 'a \<Rightarrow> string + 'a" where
  "exc_message r =
     (case r of
        Inl (ValueError m) \<Rightarrow> Inl m
      | Inl _ \<Rightarrow> Inl ''error''
      | Inr v \<Rightarrow> Inr v)"

definition ProxyConfig_init :: "ProxyConfig_kwargs \<Rightarrow> exc + ProxyConfig" where
  "ProxyConfig_init kw =
     (let r_http = validate_Optional_AnyHttpUrl (kw_http kw);
          r_https = validate_Optional_AnyHttpUrl (kw_https kw);
          vals = \<lparr>values_http = field_value None r_http,
                  values_https = field_value None r_https,
                  values_no_proxy = kw_no_proxy kw\<rparr>;
          r_use = (case kw_use_aproxy kw of
                     None \<Rightarrow> Inr False
                   | Some b \<Rightarrow> exc_message (check_use_aproxy b vals));
          errors = field_errors ''http'' r_http @ field_errors ''https'' r_https
                   @ field_errors ''use_aproxy'' r_use
      in if errors = []
         then Inr \<lparr>http = values_http vals, https = values_https vals,
                   no_proxy = values_no_proxy vals, use_aproxy = field_value False r_use\<rparr>
         else Inl (ValidationError errors))"

text \<open>\<^verbatim>\<open>__bool__\<close>: the truth value of a \<^verbatim>\<open>ProxyConfig\<close>.\<close>

definition ProxyConfig_bool :: "ProxyConfig \<Rightarrow> bool" where
  "ProxyConfig_bool self = (py_or (http self) (https self) \<noteq> None)"

subsection \<open>SSHDebugConnection\<close>

text \<open>
  \<^verbatim>\<open>IPvAnyAddress\<close> is an IPv4 address of four octets or an IPv6 address of eight
  16-bit groups.
\<close>

datatype IPvAnyAddress = IPv4Address "nat list" | IPv6Address "nat list"

fun valid_IPvAnyAddress :: "IPvAnyAddress \<Rightarrow> bool" where
  "valid_IPvAnyAddress (IPv4Address os) = (length os = 4 \<and> list_all (\<lambda>n. n < 256) os)"
| "valid_IPvAnyAddress (IPv6Address gs) = (length gs = 8 \<and> list_all (\<lambda>n. n < 65536) gs)"

record SSHDebugConnection =
  host :: IPvAnyAddress
  port :: int
  rsa_fingerprint :: string
  ed25519_fingerprint :: string

text \<open>
  The declared constraints: \<^verbatim>\<open>Field(0, gt=0, le=65535)\<close> gives the port the default 0
  and the bounds \<open>0 < port \<le> 65535\<close>; \<^verbatim>\<open>Field(pattern="^SHA256:.*")\<close> makes a
  fingerprint required and has it start with \<^verbatim>\<open>SHA256:\<close>. A constraint is checked on
  a value that is given; a default is taken as it is.
\<close>

definition validate_port :: "int \<Rightarrow> string + int" where
  "validate_port p =
     (if \<not> 0 < p then Inl ''ensure this value is greater than 0''
      else if \<not> p \<le> 65535 then Inl ''ensure this value is less than or equal to 65535''
      else Inr p)"

definition matches_SHA256 :: "string \<Rightarrow> bool" where
  "matches_SHA256 s = (take 7 s = ''SHA256:'')"

definition validate_fingerprint :: "string option \<Rightarrow> string + string" where
  "validate_fingerprint v =
     (case v of
        None \<Rightarrow> Inl ''field required''
      | Some s \<Rightarrow> if matches_SHA256 s then Inr s else Inl ''string does not match pattern'')"

definition validate_host :: "IPvAnyAddress option \<Rightarrow> string + IPvAnyAddress" where
  "validate_host v =
     (case v of
        None \<Rightarrow> Inl ''field required''
      | Some a \<Rightarrow> if valid_IPvAnyAddress a then Inr a else Inl ''value is not a valid IP address'')"

record SSHDebugConnection_kwargs =
  kw_host :: "IPvAnyAddress option"
  kw_port :: "int option"
  kw_rsa_fingerprint :: "string option"
  kw_ed25519_fingerprint :: "string option"

definition SSHDebugConnection_init :: "SSHDebugConnection_kwargs \<Rightarrow> exc + SSHDebugConnection" where
  "SSHDebugConnection_init kw =
     (let r_host = validate_host (kw_host kw);
          r_port = (case kw_port kw of None \<Rightarrow> Inr 0 | Some p \<Rightarrow> validate_port p);
          r_rsa = validate_fingerprint (kw_rsa_fingerprint kw);
          r_ed = validate_fingerprint (kw_ed25519_fingerprint kw);
          errors = field_errors ''host'' r_host @ field_errors ''port'' r_port
                   @ field_errors ''rsa_fingerprint'' r_rsa
                   @ field_errors ''ed25519_fingerprint'' r_ed
      in if errors = []
         then Inr \<lparr>host = field_value (IPv4Address []) r_host, port = field_value 0 r_port,
                   rsa_fingerprint = field_value [] r_rsa,
                   ed25519_fingerprint = field_value [] r_ed\<rparr>
         else Inl (ValidationError errors))"

subsection \<open>The other configuration classes\<close>

record RepoPolicyComplianceConfig =
  token :: string
  url :: AnyHttpUrl

record SupportServiceConfig =
  proxy_config :: "ProxyConfig option"
  dockerhub_mirror :: "string option"
  ssh_debug_connections :: "SSHDebugConnection list option"
  repo_policy_compliance :: "RepoPolicyComplianceConfig option"

record Image =
  image :: string
  image_labels :: "string list"

record Flavor =
  flavor :: string
  flavor_labels :: "string list"

record NonReactiveCombination =
  combination_image :: Image
  combination_flavor :: Flavor
  base_virtual_machines :: int

record NonReactiveConfiguration =
  combinations :: "NonReactiveCombination list"

record QueueConfig =
  mongodb_uri :: string
  queue_name :: string

record ReactiveConfiguration =
  queue :: QueueConfig
  max_total_virtual_machines :: int
  reactive_images :: "Image list"
  reactive_flavors :: "Flavor list"

text \<open>The GitHub configuration is declared in another module; it is a type parameter.\<close>

record 'g ApplicationConfiguration =
  extra_labels :: "string list"
  github_config :: 'g
  service_config :: SupportServiceConfig
  non_reactive_configuration :: NonReactiveConfiguration
  reactive_configuration :: "ReactiveConfiguration option"

section \<open>openstack_manager.py\<close>

subsection \<open>Values and collaborators\<close>




text \<open>
  \<^verbatim>\<open>cloud_config\<close> is a dictionary of dictionaries in insertion order: the code takes the
  first key of \<^verbatim>\<open>cloud_config["clouds"]\<close>. The settings of a cloud are not read.
\<close>

type_synonym cloud_config = "(string \<times> (string \<times> string) list) list"

type_synonym Arch = string

datatype GithubPath = GithubPath (path: string)

record RunnerApplication =
  download_url :: string
  architecture :: string

record openstack_image =
  image_id :: string
  image_name :: string

record InstanceConfig =
  name :: string
  labels :: "string list"
  registration_token :: string
  github_path :: GithubPath
  openstack_image :: openstack_image

datatype template_value =
    TStr string
  | TNone
  | TProxy ProxyConfig
  | TSSH SSHDebugConnection

datatype json = JStr string | JObj "(string \<times> json) list"

text \<open>
  Every call that leaves the module (the GitHub client, the random source, the template
  files, the build script, the cloud, the clock) is recorded in a log, as a mock records
  its calls.
\<close>

datatype call =
    GetRunnerApplication GithubPath Arch
  | GetRunnerRegistrationToken GithubPath
  | TokenHex nat
  | Choice nat
  | Render string "(string \<times> template_value) list"
  | ExecuteCommand "string list"
  | Connect string
  | SearchImages string
  | DeleteImage string
  | CreateImage string string
  | CreateServer string openstack_image string string
  | Sleep nat

datatype delete_outcome = Deleted | NotDeleted | DeleteRaises

text \<open>
  The world outside the module: the log of calls, the image store of the cloud, and the
  behaviour of each collaborator, a deterministic stub that answers a call from the log
  up to and including that call. The stubs are never updated. A call to the cloud that
  fails raises \<^verbatim>\<open>OpenStackCloudException\<close>, the exception of the SDK that the module
  handles: \<open>connect_raises\<close>, \<open>search_images_raises\<close> and \<open>create_server_raises\<close>
  say whether the call does, \<open>create_image_stub\<close> gives the id of the new image or
  \<open>None\<close> when the upload raises, and \<open>delete_image_stub\<close> gives the outcome of a
  deletion.
\<close>

record world =
  calls :: "call list"
  images :: "openstack_image list"
  get_runner_application_stub :: "call list \<Rightarrow> exc + RunnerApplication"
  get_runner_registration_token_stub :: "call list \<Rightarrow> exc + string"
  token_hex_stub :: "call list \<Rightarrow> string"
  choice_stub :: "call list \<Rightarrow> nat"
  render_stub :: "string \<Rightarrow> (string \<times> template_value) list \<Rightarrow> string"
  json_dumps :: "json \<Rightarrow> string"
  execute_command_stub :: "call list \<Rightarrow> int"
  connect_raises :: "call list \<Rightarrow> bool"
  search_images_raises :: "call list \<Rightarrow> bool"
  delete_image_stub :: "call list \<Rightarrow> delete_outcome"
  create_image_stub :: "call list \<Rightarrow> string option"
  create_server_raises :: "call list \<Rightarrow> bool"

definition record_call :: "call \<Rightarrow> world \<Rightarrow> world" where
  "record_call c w = w\<lparr>calls := calls w @ [c]\<rparr>"

subsection \<open>The GitHub client, the random source, the templates\<close>


definition get_runner_registration_token :: "GithubPath \<Rightarrow> world \<Rightarrow> (exc + string) \<times> world" where
  "get_runner_registration_token p w =
     (let w1 = record_call (GetRunnerRegistrationToken p) w
      in (get_runner_registration_token_stub w1 (calls w1), w1))"

definition token_hex :: "nat \<Rightarrow> world \<Rightarrow> string \<times> world" where
  "token_hex n w = (let w1 = record_call (TokenHex n) w in (token_hex_stub w1 (calls w1), w1))"

text \<open>\<^verbatim>\<open>secrets.choice\<close> on a non-empty list.\<close>

definition choice :: "'a list \<Rightarrow> world \<Rightarrow> 'a \<times> world" where
  "choice xs w =
     (let w1 = record_call (Choice (length xs)) w
      in (xs ! (choice_stub w1 (calls w1) mod length xs), w1))"

definition render :: "string \<Rightarrow> (string \<times> template_value) list \<Rightarrow> world \<Rightarrow> string \<times> world" where
  "render template ctx w = (render_stub w template ctx, record_call (Render template ctx) w)"

subsection \<open>The cloud\<close>

text \<open>
  \<^verbatim>\<open>openstack.connect\<close>: the connection is the name of the cloud it was opened for.
\<close>

definition openstack_connect :: "string \<Rightarrow> world \<Rightarrow> (exc + string) \<times> world" where
  "openstack_connect cloud_name w =
     (let w1 = record_call (Connect cloud_name) w
      in if connect_raises w1 (calls w1) then (Inl OpenStackCloudException, w1)
         else (Inr cloud_name, w1))"


definition find_image :: "string \<Rightarrow> openstack_image list \<Rightarrow> openstack_image option" where
  "find_image name_or_id imgs =
     (case find (\<lambda>i. image_id i = name_or_id) imgs of
        Some i \<Rightarrow> Some i
      | None \<Rightarrow> find (\<lambda>i. image_name i = name_or_id) imgs)"

text \<open>
  \<^verbatim>\<open>delete_image(name_or_id, wait=True)\<close>: \<^verbatim>\<open>True\<close> once the image is gone from the
  store, \<^verbatim>\<open>False\<close> when nothing was deleted, or an exception of the cloud.
\<close>

definition delete_image :: "string \<Rightarrow> world \<Rightarrow> (exc + bool) \<times> world" where
  "delete_image name_or_id w =
     (let w1 = record_call (DeleteImage name_or_id) w
      in (case delete_image_stub w1 (calls w1) of
            DeleteRaises \<Rightarrow> (Inl OpenStackCloudException, w1)
          | NotDeleted \<Rightarrow> (Inr False, w1)
          | Deleted \<Rightarrow>
              (case find_image name_or_id (images w1) of
                 None \<Rightarrow> (Inr False, w1)
               | Some i \<Rightarrow>
                   (Inr True,
                    w1\<lparr>images := filter (\<lambda>j. image_id j \<noteq> image_id i) (images w1)\<rparr>))))"


definition create_server :: "string \<Rightarrow> openstack_image \<Rightarrow> string \<Rightarrow> string \<Rightarrow> world \<Rightarrow> (exc + unit) \<times> world" where
  "create_server nm img flv userdata w =
     (let w1 = record_call (CreateServer nm img flv userdata) w
      in if create_server_raises w1 (calls w1) then (Inl OpenStackCloudException, w1)
         else (Inr (), w1))"

subsection \<open>Connecting\<close>

text \<open>
  \<^verbatim>\<open>_create_connection\<close> (the functions of the module whose names start with an
  underscore are written without it). \<^verbatim>\<open>cloud_config["clouds"]\<close> raises
  \<^verbatim>\<open>KeyError\<close> on a missing key and \<^verbatim>\<open>clouds[0]\<close> raises \<^verbatim>\<open>IndexError\<close> on an empty
  list; the warning on several clouds has no effect on the result.
\<close>

definition create_connection :: "cloud_config \<Rightarrow> world \<Rightarrow> (exc + string) \<times> world" where
  "create_connection cloud_config w =
     (case map_of cloud_config ''clouds'' of
        None \<Rightarrow> (Inl (KeyError ''clouds''), w)
      | Some cs \<Rightarrow>
          (let clouds = map fst cs
           in (case clouds of
                 [] \<Rightarrow> (Inl IndexError, w)
               | cloud_name # _ \<Rightarrow> openstack_connect cloud_name w)))"

subsection \<open>Building the image\<close>

definition proxies_value :: "ProxyConfig option \<Rightarrow> template_value" where
  "proxies_value proxies = (case proxies of None \<Rightarrow> TNone | Some p \<Rightarrow> TProxy p)"







text \<open>The loop over the images found under the fixed name.\<close>

fun delete_existing_images :: "openstack_image list \<Rightarrow> world \<Rightarrow> (exc + unit) \<times> world" where
  "delete_existing_images [] w = (Inr (), w)"
| "delete_existing_images (existing_image # rest) w =
     (case delete_image (image_id existing_image) w of
        (Inl e, w1) \<Rightarrow> (Inl e, w1)
      | (Inr deleted, w1) \<Rightarrow>
          if \<not> deleted
          then (Inl (OpenstackImageBuildError ''Failed to delete duplicate image on Openstack.'' None), w1)
          else delete_existing_images rest w1)"


definition except_OpenStackCloudException :: "(exc \<Rightarrow> exc) \<Rightarrow> (exc + 'a) \<times> world \<Rightarrow> (exc + 'a) \<times> world" where
  "except_OpenStackCloudException handler rw =
     (case rw of
        (Inl e, w) \<Rightarrow> if e = OpenStackCloudException then (Inl (handler e), w) else (Inl e, w)
      | (Inr v, w) \<Rightarrow> (Inr v, w))"


subsection \<open>The configuration of an instance\<close>

text \<open>
  \<^verbatim>\<open>unit_name.rsplit("/", 1)\<close>: the text before and after the last \<^verbatim>\<open>/\<close>, or the text
  alone when it has none; unpacking one element into two names raises \<^verbatim>\<open>ValueError\<close>.
\<close>

definition rsplit_slash :: "string \<Rightarrow> string list" where
  "rsplit_slash s =
     (if CHR ''/'' \<in> set s
      then [rev (tl (dropWhile (\<lambda>c. c \<noteq> CHR ''/'') (rev s))),
            rev (takeWhile (\<lambda>c. c \<noteq> CHR ''/'') (rev s))]
      else [s])"

definition create_instance_config :: "string \<Rightarrow> openstack_image \<Rightarrow> GithubPath \<Rightarrow> world \<Rightarrow> (exc + InstanceConfig) \<times> world" where
  "create_instance_config unit_name img p w =
     (case rsplit_slash unit_name of
        [app_name, unit_num] \<Rightarrow>
          (let (suffix, w1) = token_hex 12 w
           in (case get_runner_registration_token p w1 of
                 (Inl e, w2) \<Rightarrow> (Inl e, w2)
               | (Inr tok, w2) \<Rightarrow>
                   (Inr \<lparr>name = app_name @ ''-'' @ unit_num @ ''-'' @ suffix,
                         labels = [app_name, ''jammy''],
                         registration_token = tok,
                         github_path = p,
                         openstack_image = img\<rparr>, w2)))
      | _ \<Rightarrow> (Inl (ValueError ''not enough values to unpack (expected 2, got 1)''), w))"

subsection \<open>Launching an instance\<close>

definition generate_runner_env :: "ProxyConfig option \<Rightarrow> string option \<Rightarrow> SSHDebugConnection list option \<Rightarrow> world \<Rightarrow> string \<times> world" where
  "generate_runner_env proxies mirror connections w =
     (let (ssh_debug_info, w1) =
            (case connections of
               None \<Rightarrow> (TNone, w)
             | Some cs \<Rightarrow>
                 if cs = [] then (TNone, w)
                 else (let (c, w') = choice cs w in (TSSH c, w')))
      in render ''env.j2''
           [(''proxies'', proxies_value proxies),
            (''pre_job_script'', TStr []),
            (''dockerhub_mirror'', TStr (case mirror of None \<Rightarrow> [] | Some m \<Rightarrow> m)),
            (''ssh_debug_info'', ssh_debug_info)] w1)"

fun join_comma :: "string list \<Rightarrow> string" where
  "join_comma [] = []"
| "join_comma [x] = x"
| "join_comma (x # y # ys) = x @ '','' @ join_comma (y # ys)"

definition generate_cloud_init_userdata :: "InstanceConfig \<Rightarrow> string \<Rightarrow> world \<Rightarrow> string \<times> world" where
  "generate_cloud_init_userdata instance_config runner_env w =
     render ''openstack-userdata.sh.j2''
       [(''github_url'', TStr (''https://github.com/'' @ path (github_path instance_config))),
        (''token'', TStr (registration_token instance_config)),
        (''instance_labels'', TStr (join_comma (labels instance_config))),
        (''instance_name'', TStr (name instance_config)),
        (''env_contents'', TStr runner_env)] w"

text \<open>The function \<^verbatim>\<open>create_instance\<close> as written, before the decorator is applied.\<close>

definition create_instance_body :: "cloud_config \<Rightarrow> InstanceConfig \<Rightarrow> ProxyConfig option \<Rightarrow> string option \<Rightarrow> SSHDebugConnection list option \<Rightarrow> world \<Rightarrow> (exc + unit) \<times> world" where
  "create_instance_body cloud_config instance_config proxies mirror connections w =
     (let (env_contents, w1) = generate_runner_env proxies mirror connections w;
          (cloud_userdata, w2) = generate_cloud_init_userdata instance_config env_contents w1
      in except_OpenStackCloudException
           (\<lambda>e. InstanceLaunchError ''Failed to launch instance.'' (Some e))
           (case create_connection cloud_config w2 of
              (Inl e, w3) \<Rightarrow> (Inl e, w3)
            | (Inr conn, w3) \<Rightarrow>
                create_server (name instance_config) (openstack_image instance_config)
                  ''m1.small'' cloud_userdata w3))"

text \<open>
  Modelled from the spec: the decorator \<^verbatim>\<open>retry\<close> of the module \<^verbatim>\<open>utilities\<close>, which
  is not among the sources. The operation is attempted up to \<open>tries\<close> times; after a
  failed attempt that is not the last the decorator sleeps for the current delay, which
  starts at \<open>delay\<close> and is multiplied by \<open>backoff\<close> after each attempt, up to
  \<open>max_delay\<close>; a success is returned at once and the failure of the last attempt is
  raised as it is. \<open>retry_loop\<close> counts the attempts that remain after the next one.
\<close>

definition sleep :: "nat \<Rightarrow> world \<Rightarrow> world" where
  "sleep seconds w = record_call (Sleep seconds) w"

fun retry_loop :: "nat \<Rightarrow> nat \<Rightarrow> nat \<Rightarrow> nat \<Rightarrow> (world \<Rightarrow> (exc + 'a) \<times> world) \<Rightarrow> world \<Rightarrow> (exc + 'a) \<times> world" where
  "retry_loop 0 current_delay max_delay backoff f w = f w"
| "retry_loop (Suc remaining) current_delay max_delay backoff f w =
     (case f w of
        (Inr v, w1) \<Rightarrow> (Inr v, w1)
      | (Inl e, w1) \<Rightarrow>
          retry_loop remaining (min (current_delay * backoff) max_delay) max_delay backoff f
            (sleep current_delay w1))"

definition retry :: "nat \<Rightarrow> nat \<Rightarrow> nat \<Rightarrow> nat \<Rightarrow> (world \<Rightarrow> (exc + 'a) \<times> world) \<Rightarrow> world \<Rightarrow> (exc + 'a) \<times> world" where
  "retry tries delay max_delay backoff f w = retry_loop (tries - 1) delay max_delay backoff f w"

text \<open>\<^verbatim>\<open>@retry(tries=5, delay=5, max_delay=60, backoff=2)\<close> on \<^verbatim>\<open>create_instance\<close>.\<close>

definition create_instance :: "cloud_config \<Rightarrow> InstanceConfig \<Rightarrow> ProxyConfig option \<Rightarrow> string option \<Rightarrow> SSHDebugConnection list option \<Rightarrow> world \<Rightarrow> (exc + unit) \<times> world" where
  "create_instance cloud_config instance_config proxies mirror connections =
     retry 5 5 60 2 (create_instance_body cloud_config instance_config proxies mirror connections)"

subsection \<open>Reading the log\<close>

text \<open>
  What a test reads from the recorded calls: the calls made since a given state, the
  attempts of \<^verbatim>\<open>create_instance\<close> among them (each attempt renders \<^verbatim>\<open>env.j2\<close> once),
  the delays slept, and whether the build script or the cloud was reached.
\<close>

definition calls_since :: "world \<Rightarrow> world \<Rightarrow> call list" where
  "calls_since w w' = drop (length (calls w)) (calls w')"

fun is_attempt :: "call \<Rightarrow> bool" where
  "is_attempt (Render template ctx) = (template = ''env.j2'')"
| "is_attempt _ = False"

definition attempts :: "call list \<Rightarrow> nat" where
  "attempts cs = length (filter is_attempt cs)"

fun sleep_of :: "call \<Rightarrow> nat list" where
  "sleep_of (Sleep d) = [d]"
| "sleep_of _ = []"

definition slept :: "call list \<Rightarrow> nat list" where
  "slept cs = concat (map sleep_of cs)"




fun is_delete_image :: "call \<Rightarrow> bool" where
  "is_delete_image (DeleteImage k) = True"
| "is_delete_image _ = False"

fun is_create_server :: "call \<Rightarrow> bool" where
  "is_create_server (CreateServer n i f u) = True"
| "is_create_server _ = False"



subsection \<open>The retry policy as the specification words it\<close>




section \<open>Sample inputs\<close>

definition sample_url :: AnyHttpUrl where
  "sample_url = \<lparr>url_text = ''http://1.2.3.4:8080'', url_scheme = ''http'',
                  url_host = Some ''1.2.3.4'', url_port = Some ''8080''\<rparr>"

definition sample_proxy_kwargs :: ProxyConfig_kwargs where
  "sample_proxy_kwargs = \<lparr>kw_http = Some sample_url, kw_https = None, kw_no_proxy = None,
                          kw_use_aproxy = Some True\<rparr>"

definition sample_proxy :: ProxyConfig where
  "sample_proxy = \<lparr>http = Some sample_url, https = None, no_proxy = None, use_aproxy = True\<rparr>"

definition no_scheme_kwargs :: ProxyConfig_kwargs where
  "no_scheme_kwargs = \<lparr>kw_http = None, kw_https = None, kw_no_proxy = Some ''localhost'',
                       kw_use_aproxy = Some True\<rparr>"

definition no_scheme_proxy :: ProxyConfig where
  "no_scheme_proxy = \<lparr>http = None, https = None, no_proxy = Some ''localhost'',
                      use_aproxy = True\<rparr>"

definition sample_ssh_kwargs :: SSHDebugConnection_kwargs where
  "sample_ssh_kwargs = \<lparr>kw_host = Some (IPv4Address [10, 0, 0, 1]), kw_port = None,
     kw_rsa_fingerprint = Some ''SHA256:abc'', kw_ed25519_fingerprint = Some ''SHA256:def''\<rparr>"

definition sample_world :: world where
  "sample_world =
     \<lparr>calls = [], images = [],
      get_runner_application_stub =
        (\<lambda>log. Inr \<lparr>download_url = ''https://example.com/runner.tar.gz'', architecture = ''x64''\<rparr>),
      get_runner_registration_token_stub = (\<lambda>log. Inr ''token''),
      token_hex_stub = (\<lambda>log. ''0123456789abcdef01234567''),
      choice_stub = (\<lambda>log. 0),
      render_stub = (\<lambda>template ctx. template),
      json_dumps = (\<lambda>doc. ''{}''),
      execute_command_stub = (\<lambda>log. 0),
      connect_raises = (\<lambda>log. False),
      search_images_raises = (\<lambda>log. False),
      delete_image_stub = (\<lambda>log. Deleted),
      create_image_stub = (\<lambda>log. Some ''new-image''),
      create_server_raises = (\<lambda>log. False)\<rparr>"

definition sample_application_configuration :: "unit ApplicationConfiguration" where
  "sample_application_configuration =
     \<lparr>extra_labels = [''gpu''], github_config = (),
      service_config = \<lparr>proxy_config = None, dockerhub_mirror = None,
                        ssh_debug_connections = None, repo_policy_compliance = None\<rparr>,
      non_reactive_configuration = \<lparr>combinations = []\<rparr>,
      reactive_configuration = None\<rparr>"

definition sample_image :: openstack_image where
  "sample_image = \<lparr>image_id = ''image-1'', image_name = ''jammy''\<rparr>"

definition sample_instance_config :: InstanceConfig where
  "sample_instance_config =
     \<lparr>name = ''app-0-0123456789abcdef01234567'', labels = [''app'', ''jammy''],
      registration_token = ''token'', github_path = GithubPath ''org/repo'',
      openstack_image = sample_image\<rparr>"



definition sample_cloud_config :: cloud_config where
  "sample_cloud_config = [(''clouds'', [(''prod'', ''settings'')])]"







definition sample_attempt :: "call list" where
  "sample_attempt =
     [Render ''env.j2'' [(''proxies'', TNone), (''pre_job_script'', TStr []),
                         (''dockerhub_mirror'', TStr []), (''ssh_debug_info'', TNone)],
      Render ''openstack-userdata.sh.j2''
        [(''github_url'', TStr ''https://github.com/org/repo''), (''token'', TStr ''token''),
         (''instance_labels'', TStr ''app,jammy''),
         (''instance_name'', TStr ''app-0-0123456789abcdef01234567''),
         (''env_contents'', TStr ''env.j2'')],
      Connect ''prod'',
      CreateServer ''app-0-0123456789abcdef01234567'' sample_image ''m1.small''
        ''openstack-userdata.sh.j2'']"


definition failing_world :: world where
  "failing_world = sample_world\<lparr>create_server_raises := (\<lambda>log. True)\<rparr>"

definition failing_final :: world where
  "failing_final = failing_world\<lparr>calls :=
     sample_attempt @ [Sleep 5] @ sample_attempt @ [Sleep 10] @ sample_attempt @ [Sleep 20]
     @ sample_attempt @ [Sleep 40] @ sample_attempt\<rparr>"

section \<open>Properties of the configuration model\<close>

lemma field_errors_Nil: "(field_errors n r = []) = (\<exists>v. r = Inr v)"
  by (cases r) (simp_all add: field_errors_def)

lemma validate_Optional_AnyHttpUrl_Inr:
  "validate_Optional_AnyHttpUrl v = Inr r \<Longrightarrow>
     r = v \<and> (\<forall>u. r = Some u \<longrightarrow>
       (\<exists>h. url_host u = Some h) \<and> (\<forall>p. url_port u = Some p \<longrightarrow> p \<noteq> []))"
  by (auto simp: validate_Optional_AnyHttpUrl_def validate_AnyHttpUrl_def valid_port_text_def
      split: option.splits if_splits sum.splits)

lemma ProxyConfig_init_Inr:
  assumes "ProxyConfig_init kw = Inr cfg"
  shows "validate_Optional_AnyHttpUrl (kw_http kw) = Inr (http cfg)"
    and "validate_Optional_AnyHttpUrl (kw_https kw) = Inr (https cfg)"
    and "no_proxy cfg = kw_no_proxy kw"
    and "use_aproxy cfg \<Longrightarrow> http cfg \<noteq> None \<or> https cfg \<noteq> None"
  using assms
  by (auto simp: ProxyConfig_init_def Let_def field_errors_Nil field_value_def exc_message_def
      check_use_aproxy_def py_or_def
      split: if_splits option.splits sum.splits exc.splits)

lemma sample_proxy_init: "ProxyConfig_init sample_proxy_kwargs = Inr sample_proxy"
  by (simp add: ProxyConfig_init_def Let_def validate_Optional_AnyHttpUrl_def
      validate_AnyHttpUrl_def sample_url_def sample_proxy_kwargs_def sample_proxy_def
      valid_port_text_def is_digit_def int_of_str_def field_errors_def field_value_def
      exc_message_def check_use_aproxy_def py_or_def)

text \<open>
  C5. For every constructed \<^verbatim>\<open>ProxyConfig\<close>: when \<^verbatim>\<open>use_aproxy\<close> is true,
  \<^verbatim>\<open>aproxy_address\<close> is the host of \<^verbatim>\<open>http\<close> when that is set and of \<^verbatim>\<open>https\<close>
  otherwise, followed by a colon and the port exactly when that URL has a port; when
  \<^verbatim>\<open>use_aproxy\<close> is false it is \<^verbatim>\<open>None\<close>, whatever the other fields are.
\<close>

theorem aproxy_address_value:
  "ProxyConfig_init kw = Inr cfg \<Longrightarrow>
     (use_aproxy cfg \<longrightarrow>
        (\<exists>u h. (http cfg = Some u \<or> (http cfg = None \<and> https cfg = Some u)) \<and>
               url_host u = Some h \<and>
               aproxy_address cfg =
                 Inr (Some (h @ (case url_port u of None \<Rightarrow> [] | Some p \<Rightarrow> '':'' @ p))))) \<and>
     (\<not> use_aproxy cfg \<longrightarrow> aproxy_address cfg = Inr None)"
proof (intro conjI impI)
  assume init: "ProxyConfig_init kw = Inr cfg" and use: "use_aproxy cfg"
  from ProxyConfig_init_Inr(4)[OF init use]
  obtain u where u: "http cfg = Some u \<or> (http cfg = None \<and> https cfg = Some u)"
    by (cases "http cfg") auto
  have "(\<exists>h. url_host u = Some h) \<and> (\<forall>p. url_port u = Some p \<longrightarrow> p \<noteq> [])"
    using u validate_Optional_AnyHttpUrl_Inr[OF ProxyConfig_init_Inr(1)[OF init]]
      validate_Optional_AnyHttpUrl_Inr[OF ProxyConfig_init_Inr(2)[OF init]]
    by auto
  then obtain h where h: "url_host u = Some h" and p: "\<forall>p. url_port u = Some p \<longrightarrow> p \<noteq> []"
    by auto
  have "aproxy_address cfg =
          Inr (Some (h @ (case url_port u of None \<Rightarrow> [] | Some p \<Rightarrow> '':'' @ p)))"
    using u h p use by (auto simp: aproxy_address_def py_or_def split: option.splits)
  with u h show "\<exists>u h. (http cfg = Some u \<or> (http cfg = None \<and> https cfg = Some u)) \<and>
               url_host u = Some h \<and>
               aproxy_address cfg =
                 Inr (Some (h @ (case url_port u of None \<Rightarrow> [] | Some p \<Rightarrow> '':'' @ p)))"
    by blast
next
  assume "\<not> use_aproxy cfg"
  then show "aproxy_address cfg = Inr None" by (simp add: aproxy_address_def)
qed

theorem aproxy_address_value_witness:
  "ProxyConfig_init sample_proxy_kwargs = Inr sample_proxy \<and> use_aproxy sample_proxy \<and>
   aproxy_address sample_proxy = Inr (Some ''1.2.3.4:8080'')"
  using sample_proxy_init aproxy_address_value [OF sample_proxy_init]
  by (auto simp: sample_proxy_def sample_url_def)

text \<open>
  C6. Constructing a \<^verbatim>\<open>ProxyConfig\<close> with \<^verbatim>\<open>use_aproxy\<close> true and neither \<^verbatim>\<open>http\<close>
  nor \<^verbatim>\<open>https\<close> set fails with a validation error that carries the message of the
  validator, and no constructed \<^verbatim>\<open>ProxyConfig\<close> has \<^verbatim>\<open>use_aproxy\<close> true with both
  schemes absent.
\<close>

theorem use_aproxy_requires_scheme:
  "(kw_use_aproxy kw = Some True \<and> kw_http kw = None \<and> kw_https kw = None \<longrightarrow>
      (\<exists>errors. ProxyConfig_init kw = Inl (ValidationError errors) \<and>
         (''use_aproxy'', ''aproxy requires http or https to be set'') \<in> set errors)) \<and>
   (\<forall>cfg. ProxyConfig_init kw = Inr cfg \<longrightarrow>
      \<not> (use_aproxy cfg \<and> http cfg = None \<and> https cfg = None))"
proof (intro conjI impI allI)
  assume "kw_use_aproxy kw = Some True \<and> kw_http kw = None \<and> kw_https kw = None"
  then show "\<exists>errors. ProxyConfig_init kw = Inl (ValidationError errors) \<and>
         (''use_aproxy'', ''aproxy requires http or https to be set'') \<in> set errors"
    by (simp add: ProxyConfig_init_def Let_def validate_Optional_AnyHttpUrl_def
        field_errors_def field_value_def exc_message_def check_use_aproxy_def py_or_def)
next
  fix cfg assume "ProxyConfig_init kw = Inr cfg"
  from ProxyConfig_init_Inr(4)[OF this]
  show "\<not> (use_aproxy cfg \<and> http cfg = None \<and> https cfg = None)" by auto
qed

theorem use_aproxy_requires_scheme_witness:
  "(\<exists>errors. ProxyConfig_init no_scheme_kwargs = Inl (ValidationError errors)) \<and>
   ProxyConfig_init sample_proxy_kwargs = Inr sample_proxy \<and>
   \<not> (use_aproxy sample_proxy \<and> http sample_proxy = None \<and> https sample_proxy = None)"
  using use_aproxy_requires_scheme [of no_scheme_kwargs]
    use_aproxy_requires_scheme [of sample_proxy_kwargs] sample_proxy_init
  by (auto simp: no_scheme_kwargs_def)

text \<open>
  C7. The truth value of a \<^verbatim>\<open>ProxyConfig\<close> is true if and only if \<^verbatim>\<open>http\<close> or
  \<^verbatim>\<open>https\<close> is set; \<^verbatim>\<open>no_proxy\<close> and \<^verbatim>\<open>use_aproxy\<close> have no part in it, so a
  configuration with only those populated is falsy.
\<close>

theorem ProxyConfig_bool_iff:
  "ProxyConfig_bool cfg = (http cfg \<noteq> None \<or> https cfg \<noteq> None)"
  by (cases "http cfg"; cases "https cfg") (simp_all add: ProxyConfig_bool_def py_or_def)

theorem ProxyConfig_bool_iff_witness:
  "\<not> ProxyConfig_bool no_scheme_proxy \<and> ProxyConfig_bool sample_proxy"
  using ProxyConfig_bool_iff [of no_scheme_proxy] ProxyConfig_bool_iff [of sample_proxy]
  by (simp add: sample_proxy_def no_scheme_proxy_def)

text \<open>
  C10. On a \<^verbatim>\<open>ProxyConfig\<close> that passed construction \<^verbatim>\<open>aproxy_address\<close> never raises:
  the assertion cannot fail, a text is returned when \<^verbatim>\<open>use_aproxy\<close> is true and
  \<^verbatim>\<open>None\<close> when it is false.
\<close>

theorem aproxy_address_never_raises:
  "ProxyConfig_init kw = Inr cfg \<Longrightarrow>
     (\<forall>e. aproxy_address cfg \<noteq> Inl e) \<and>
     (use_aproxy cfg \<longrightarrow> (\<exists>a. aproxy_address cfg = Inr (Some a))) \<and>
     (\<not> use_aproxy cfg \<longrightarrow> aproxy_address cfg = Inr None)"
proof -
  assume init: "ProxyConfig_init kw = Inr cfg"
  show ?thesis
  proof (cases "use_aproxy cfg")
    case False
    then show ?thesis by (simp add: aproxy_address_def)
  next
    case True
    from ProxyConfig_init_Inr(4)[OF init True]
    obtain u where u: "py_or (http cfg) (https cfg) = Some u"
      and src: "http cfg = Some u \<or> https cfg = Some u"
      by (cases "http cfg") (auto simp: py_or_def)
    from src obtain h where h: "url_host u = Some h"
      using validate_Optional_AnyHttpUrl_Inr[OF ProxyConfig_init_Inr(1)[OF init]]
        validate_Optional_AnyHttpUrl_Inr[OF ProxyConfig_init_Inr(2)[OF init]]
      by auto
    show ?thesis using True u h
      by (auto simp: aproxy_address_def split: option.splits)
  qed
qed

theorem aproxy_address_never_raises_witness:
  "ProxyConfig_init sample_proxy_kwargs = Inr sample_proxy \<and>
   (\<exists>a. aproxy_address sample_proxy = Inr (Some a))"
  using sample_proxy_init aproxy_address_never_raises [OF sample_proxy_init]
  by (simp add: sample_proxy_def)

text \<open>
  The constraints of \<^verbatim>\<open>SSHDebugConnection\<close> are checked on the values that are
  given: a given port is within 1 to 65535 and both fingerprints start with
  \<^verbatim>\<open>SHA256:\<close>.
\<close>

lemma SSHDebugConnection_init_checked:
  "SSHDebugConnection_init kw = Inr c \<Longrightarrow>
     (kw_port kw \<noteq> None \<longrightarrow> 0 < port c \<and> port c \<le> 65535) \<and>
     matches_SHA256 (rsa_fingerprint c) \<and> matches_SHA256 (ed25519_fingerprint c) \<and>
     valid_IPvAnyAddress (host c)"
  by (auto simp: SSHDebugConnection_init_def Let_def field_errors_Nil field_value_def
      validate_port_def validate_fingerprint_def validate_host_def
      split: if_splits option.splits)

text \<open>
  C8. A construction that leaves the port out succeeds with the declared default 0, which
  is outside 1 to 65535: the default is not checked against the bounds declared with it.
\<close>

theorem SSHDebugConnection_default_port:
  "SSHDebugConnection_init sample_ssh_kwargs =
     Inr \<lparr>host = IPv4Address [10, 0, 0, 1], port = 0, rsa_fingerprint = ''SHA256:abc'',
          ed25519_fingerprint = ''SHA256:def''\<rparr>"
  by (simp add: SSHDebugConnection_init_def sample_ssh_kwargs_def Let_def validate_host_def
      validate_fingerprint_def matches_SHA256_def field_errors_def field_value_def)

section \<open>Properties of the OpenStack manager\<close>

text \<open>
  C3. On a credential bundle whose \<^verbatim>\<open>clouds\<close> dictionary is empty the connector raises
  \<^verbatim>\<open>IndexError\<close> from \<^verbatim>\<open>clouds[0]\<close>, before any call to the cloud; it is not a
  configuration error.
\<close>

theorem create_connection_no_clouds:
  "create_connection [(''clouds'', [])] w = (Inl IndexError, w)"
  by (simp add: create_connection_def)

lemma rsplit_slash_two:
  assumes "rsplit_slash s = [a, b]"
  shows "s = a @ ''/'' @ b \<and> CHR ''/'' \<notin> set b"
proof -
  let ?P = "\<lambda>c. c \<noteq> CHR ''/''"
  from assms have mem: "CHR ''/'' \<in> set s"
    by (auto simp: rsplit_slash_def split: if_splits)
  with assms have a: "a = rev (tl (dropWhile ?P (rev s)))" and b: "b = rev (takeWhile ?P (rev s))"
    by (auto simp: rsplit_slash_def)
  from mem have ne: "dropWhile ?P (rev s) \<noteq> []" by auto
  then have "hd (dropWhile ?P (rev s)) = CHR ''/''"
    using hd_dropWhile[of ?P "rev s"] by blast
  with ne have "dropWhile ?P (rev s) = CHR ''/'' # tl (dropWhile ?P (rev s))"
    by (cases "dropWhile ?P (rev s)") auto
  then have "rev s = takeWhile ?P (rev s) @ CHR ''/'' # tl (dropWhile ?P (rev s))"
    using takeWhile_dropWhile_id[of ?P "rev s"] by simp
  then have "rev (rev s) = rev (takeWhile ?P (rev s) @ CHR ''/'' # tl (dropWhile ?P (rev s)))"
    by simp
  then have "s = a @ ''/'' @ b" using a b by simp
  moreover have "CHR ''/'' \<notin> set b" using b by (auto dest: set_takeWhileD)
  ultimately show ?thesis by blast
qed

text \<open>
  C9. An \<^verbatim>\<open>InstanceConfig\<close> made by \<^verbatim>\<open>create_instance_config\<close> carries exactly two
  labels, the application name (the unit name up to its last \<^verbatim>\<open>/\<close>) and \<^verbatim>\<open>jammy\<close>;
  the function receives no application configuration and reads no extra labels.
\<close>

theorem create_instance_config_labels:
  "create_instance_config unit_name img p w = (Inr ic, w') \<Longrightarrow>
     \<exists>app_name unit_num. unit_name = app_name @ ''/'' @ unit_num \<and> CHR ''/'' \<notin> set unit_num \<and>
       labels ic = [app_name, ''jammy'']"
proof -
  assume r: "create_instance_config unit_name img p w = (Inr ic, w')"
  then obtain a b where ab: "rsplit_slash unit_name = [a, b]"
    by (auto simp: create_instance_config_def split: list.splits)
  with r have "labels ic = [a, ''jammy'']"
    by (auto simp: create_instance_config_def Let_def split: prod.splits sum.splits)
  with rsplit_slash_two[OF ab] show ?thesis by blast
qed

lemma sample_create_instance_config:
  "create_instance_config ''app/0'' sample_image (GithubPath ''org/repo'') sample_world =
     (Inr sample_instance_config,
      sample_world\<lparr>calls := [TokenHex 12, GetRunnerRegistrationToken (GithubPath ''org/repo'')]\<rparr>)"
  by (simp add: create_instance_config_def rsplit_slash_def token_hex_def
      get_runner_registration_token_def record_call_def sample_world_def
      sample_instance_config_def Let_def)

theorem create_instance_config_labels_witness:
  "create_instance_config ''app/0'' sample_image (GithubPath ''org/repo'') sample_world =
     (Inr sample_instance_config,
      sample_world\<lparr>calls := [TokenHex 12, GetRunnerRegistrationToken (GithubPath ''org/repo'')]\<rparr>) \<and>
   labels sample_instance_config = [''app'', ''jammy'']"
  using sample_create_instance_config
    create_instance_config_labels [OF sample_create_instance_config]
  by (simp add: sample_instance_config_def)

text \<open>
  C9 as stated fails: with \<^verbatim>\<open>extra_labels = ["gpu"]\<close> configured, the instance
  configuration made for the unit \<^verbatim>\<open>app/0\<close> has the labels \<^verbatim>\<open>app\<close> and \<^verbatim>\<open>jammy\<close> only.
\<close>

theorem extra_labels_counterexample:
  "fst (create_instance_config ''app/0'' sample_image (GithubPath ''org/repo'') sample_world) =
     Inr sample_instance_config \<and>
   \<not> set (extra_labels sample_application_configuration) \<subseteq> set (labels sample_instance_config)"
  by (simp add: sample_create_instance_config sample_application_configuration_def
      sample_instance_config_def)

lemma calls_since_append: "calls w' = calls w @ new \<Longrightarrow> calls_since w w' = new"
  by (simp add: calls_since_def)










lemma find_image_Some:
  "find_image k imgs = Some i \<Longrightarrow> image_id i = k \<or> (\<forall>j\<in>set imgs. image_id j \<noteq> k)"
  by (auto simp: find_image_def find_Some_iff find_None_iff split: option.splits)

lemma delete_image_effect:
  assumes "delete_image k w = (r, w1)"
  shows "calls w1 = calls w @ [DeleteImage k]"
    and "\<exists>P. images w1 = filter P (images w)"
    and "r = Inr True \<Longrightarrow> \<forall>i\<in>set (images w1). image_id i \<noteq> k"
    and "r = Inr True \<or> r = Inr False \<or> r = Inl OpenStackCloudException"
proof -
  let ?w = "record_call (DeleteImage k) w"
  have im: "images ?w = images w" and ca: "calls ?w = calls w @ [DeleteImage k]"
    by (simp_all add: record_call_def)
  show "calls w1 = calls w @ [DeleteImage k]"
    using assms ca
    by (auto simp: delete_image_def Let_def split: delete_outcome.splits option.splits)
  have same: "images w = filter (\<lambda>i. True) (images w)" by simp
  have "images w1 = images w \<or>
        images w1 = filter (\<lambda>j. image_id j \<noteq> image_id (the (find_image k (images w))))
                      (images w)"
    using assms im
    by (auto simp: delete_image_def Let_def split: delete_outcome.splits option.splits)
  with same show "\<exists>P. images w1 = filter P (images w)" by metis
  show "r = Inr True \<or> r = Inr False \<or> r = Inl OpenStackCloudException"
    using assms
    by (auto simp: delete_image_def Let_def split: delete_outcome.splits option.splits)
  show "\<forall>i\<in>set (images w1). image_id i \<noteq> k" if "r = Inr True"
  proof -
    from assms that obtain i where f: "find_image k (images ?w) = Some i"
      and w1: "images w1 = filter (\<lambda>j. image_id j \<noteq> image_id i) (images ?w)"
      by (auto simp: delete_image_def Let_def split: delete_outcome.splits option.splits)
    from find_image_Some[OF f] w1 show ?thesis by auto
  qed
qed

lemma filter_of_filter: "\<exists>P. xs = filter P ys \<Longrightarrow> \<exists>Q. zs = filter Q xs \<Longrightarrow> \<exists>R. zs = filter R ys"
  by (metis filter_filter)


lemma delete_existing_images_fail:
  "delete_existing_images xs w = (Inl e, w') \<Longrightarrow>
     (\<exists>new. calls w' = calls w @ new \<and> new \<noteq> [] \<and> list_all is_delete_image new) \<and>
     (\<exists>P. images w' = filter P (images w)) \<and>
     (e = OpenstackImageBuildError ''Failed to delete duplicate image on Openstack.'' None \<or>
      e = OpenStackCloudException)"
proof (induction xs arbitrary: w)
  case Nil
  then show ?case by simp
next
  case (Cons x xs)
  obtain r w1 where d: "delete_image (image_id x) w = (r, w1)"
    by (cases "delete_image (image_id x) w")
  note ef = delete_image_effect[OF d]
  show ?case
  proof (cases "r = Inr True")
    case True
    with Cons.prems d have rest: "delete_existing_images xs w1 = (Inl e, w')" by simp
    from Cons.IH[OF rest] obtain new where new: "calls w' = calls w1 @ new" "new \<noteq> []"
      "list_all is_delete_image new" and f: "\<exists>P. images w' = filter P (images w1)"
      and e: "e = OpenstackImageBuildError ''Failed to delete duplicate image on Openstack.'' None \<or>
        e = OpenStackCloudException"
      by blast
    have "calls w' = calls w @ (DeleteImage (image_id x) # new)" using new(1) ef(1) by simp
    moreover have "DeleteImage (image_id x) # new \<noteq> []" by simp
    moreover have "list_all is_delete_image (DeleteImage (image_id x) # new)" using new(3) by simp
    ultimately have "\<exists>new. calls w' = calls w @ new \<and> new \<noteq> [] \<and> list_all is_delete_image new"
      by blast
    moreover from f ef(2) have "\<exists>P. images w' = filter P (images w)"
      using filter_of_filter by blast
    ultimately show ?thesis using e by blast
  next
    case False
    with ef(4) have "r = Inr False \<or> r = Inl OpenStackCloudException" by blast
    with Cons.prems d have w': "w' = w1"
      and e: "e = OpenstackImageBuildError ''Failed to delete duplicate image on Openstack.'' None \<or>
        e = OpenStackCloudException"
      by auto
    have "calls w' = calls w @ [DeleteImage (image_id x)]" using ef(1) w' by simp
    moreover have "[DeleteImage (image_id x)] \<noteq> []" by simp
    moreover have "list_all is_delete_image [DeleteImage (image_id x)]" by simp
    ultimately have "\<exists>new. calls w' = calls w @ new \<and> new \<noteq> [] \<and> list_all is_delete_image new"
      by blast
    with ef(2) w' e show ?thesis by blast
  qed
qed






lemma last_delete: "ds \<noteq> [] \<Longrightarrow> list_all is_delete_image ds \<Longrightarrow> is_delete_image (last ds)"
  by (induction ds) (auto split: if_splits)


text \<open>A failed deletion is the last call of the loop.\<close>

lemma failed_deletion_is_last_call:
  assumes "delete_existing_images xs w = (Inl e, w')"
  shows "calls_since w w' \<noteq> [] \<and> is_delete_image (last (calls_since w w'))"
proof -
  from delete_existing_images_fail[OF assms] obtain new where
    new: "calls w' = calls w @ new" "new \<noteq> []" "list_all is_delete_image new"
    by blast
  from new(1) have "calls_since w w' = new" by (rule calls_since_append)
  with new(2) last_delete[OF new(2,3)] show ?thesis by simp
qed



























lemma create_instance_unfold:
  "create_instance cc ic proxies mirror connections =
     retry_loop (Suc (Suc (Suc (Suc 0)))) 5 60 2
       (create_instance_body cc ic proxies mirror connections)"
  by (rule ext) (simp add: create_instance_def retry_def numeral_eq_Suc)

lemmas create_instance_eval =
  create_instance_unfold create_instance_body_def generate_runner_env_def
  generate_cloud_init_userdata_def render_def proxies_value_def create_connection_def
  openstack_connect_def create_server_def except_OpenStackCloudException_def sleep_def
  record_call_def sample_cloud_config_def sample_instance_config_def sample_world_def
  sample_attempt_def Let_def


text \<open>
  A cloud that always raises: five attempts, four sleeps, and the instance launch error
  of the fifth attempt.
\<close>

lemma failing_run:
  "create_instance sample_cloud_config sample_instance_config None None None failing_world =
     (Inl (InstanceLaunchError ''Failed to launch instance.'' (Some OpenStackCloudException)),
      failing_final)"
  by (simp add: create_instance_eval failing_world_def failing_final_def)

lemma failing_log:
  "attempts (calls_since failing_world failing_final) = 5 \<and>
   slept (calls_since failing_world failing_final) = [5, 10, 20, 40] \<and>
   length (filter is_create_server (calls_since failing_world failing_final)) = 5"
  by (simp add: failing_final_def failing_world_def sample_world_def calls_since_def
      sample_attempt_def attempts_def slept_def)


end
